theory Spec2Isabelle
  imports Complex_Main "HOL-Library.Multiset" "HOL-Library.Sublist"
    "HOL-Library.Product_Lexorder"
begin

section \<open>Data model\<close>

text \<open>
  The enumerations of the migration (\<^verbatim>\<open>app_role\<close>, \<^verbatim>\<open>transaction_type\<close>,
  \<^verbatim>\<open>payment_method\<close>) and of \<^verbatim>\<open>types/transaction.ts\<close>.
\<close>

datatype app_role = admin | view_only | edit | insert_expenses | insert_income

datatype transaction_type = income | expense

datatype payment_method =
  dinheiro | pix | cartao_credito | cartao_debito | boleto | transferencia | cheque | outro

text \<open>
  A uuid is a string. A PostgreSQL \<^verbatim>\<open>date\<close> is a day number, a \<^verbatim>\<open>timestamptz\<close> and a
  JavaScript \<^verbatim>\<open>Date\<close> are instants on an integer time line (milliseconds since the epoch for
  \<^verbatim>\<open>Date\<close>).
\<close>

type_synonym uuid = string
type_synonym pg_date = int
type_synonym timestamptz = int
type_synonym js_date = int

text \<open>A row of \<^verbatim>\<open>public.user_roles\<close>.\<close>

record user_role =
  ur_id :: uuid
  ur_user_id :: uuid
  ur_role :: app_role

section \<open>Role predicates\<close>

subsection \<open>Application layer: \<^verbatim>\<open>AuthProvider\<close>\<close>

text \<open>
  Both versions of \<^verbatim>\<open>AuthProvider\<close> compute the six flags from the array \<^verbatim>\<open>roles\<close> in the
  same way.
\<close>

definition isAdmin :: "app_role list \<Rightarrow> bool" where
  "isAdmin roles = (admin \<in> set roles)"

definition canView :: "app_role list \<Rightarrow> bool" where
  "canView roles = (length roles > 0)"

definition canEdit :: "app_role list \<Rightarrow> bool" where
  "canEdit roles = (isAdmin roles \<or> edit \<in> set roles)"

definition canInsertExpense :: "app_role list \<Rightarrow> bool" where
  "canInsertExpense roles = (isAdmin roles \<or> edit \<in> set roles \<or> insert_expenses \<in> set roles)"

definition canInsertIncome :: "app_role list \<Rightarrow> bool" where
  "canInsertIncome roles = (isAdmin roles \<or> edit \<in> set roles \<or> insert_income \<in> set roles)"

definition canDelete :: "app_role list \<Rightarrow> bool" where
  "canDelete roles = (isAdmin roles \<or> edit \<in> set roles)"

text \<open>
  The array \<^verbatim>\<open>roles\<close> of a user is what \<^verbatim>\<open>fetchUserData\<close> reads:
  \<^verbatim>\<open>from('user_roles').select('*').eq('user_id', userId)\<close>, then \<^verbatim>\<open>map((r) => r.role)\<close>
  (the \<^verbatim>\<open>login\<close> and \<^verbatim>\<open>getUser\<close> actions aggregate the same rows).
\<close>

definition fetchUserRoles :: "user_role list \<Rightarrow> uuid \<Rightarrow> app_role list" where
  "fetchUserRoles tbl userId = map ur_role (filter (\<lambda>r. ur_user_id r = userId) tbl)"

subsection \<open>Database layer: the SQL functions of the migration\<close>

text \<open>
  Each function is \<^verbatim>\<open>SELECT EXISTS (SELECT 1 FROM user_roles WHERE user_id = _user_id AND role IN (...))\<close>.
\<close>

definition has_role :: "user_role list \<Rightarrow> uuid \<Rightarrow> app_role \<Rightarrow> bool" where
  "has_role tbl uid r = list_ex (\<lambda>row. ur_user_id row = uid \<and> ur_role row = r) tbl"

definition can_delete :: "user_role list \<Rightarrow> uuid \<Rightarrow> bool" where
  "can_delete tbl uid =
     list_ex (\<lambda>row. ur_user_id row = uid \<and> ur_role row \<in> set [admin, edit]) tbl"

definition can_edit :: "user_role list \<Rightarrow> uuid \<Rightarrow> bool" where
  "can_edit tbl uid =
     list_ex (\<lambda>row. ur_user_id row = uid \<and> ur_role row \<in> set [admin, edit]) tbl"

definition can_insert_expense :: "user_role list \<Rightarrow> uuid \<Rightarrow> bool" where
  "can_insert_expense tbl uid =
     list_ex (\<lambda>row. ur_user_id row = uid \<and> ur_role row \<in> set [admin, edit, insert_expenses]) tbl"

definition can_insert_income :: "user_role list \<Rightarrow> uuid \<Rightarrow> bool" where
  "can_insert_income tbl uid =
     list_ex (\<lambda>row. ur_user_id row = uid \<and> ur_role row \<in> set [admin, edit, insert_income]) tbl"

definition can_view :: "user_role list \<Rightarrow> uuid \<Rightarrow> bool" where
  "can_view tbl uid =
     list_ex (\<lambda>row. ur_user_id row = uid
        \<and> ur_role row \<in> set [admin, view_only, edit, insert_expenses, insert_income]) tbl"

section \<open>Transactions\<close>

text \<open>
  A row of \<^verbatim>\<open>public.transactions\<close> (\<^verbatim>\<open>DbTransaction\<close> in the hook). The type \<open>'n\<close> is the
  type of amounts: \<^verbatim>\<open>number\<close> in TypeScript. Its arithmetic is fixed only where a
  function uses it.
\<close>

record 'n DbTransaction =
  db_id :: uuid
  db_user_id :: uuid
  db_date :: pg_date
  db_type :: transaction_type
  client_supplier :: string
  db_amount :: 'n
  db_description :: "string option"
  db_payment_method :: payment_method
  created_at :: timestamptz
  updated_at :: timestamptz

text \<open>The interface \<^verbatim>\<open>Transaction\<close> of \<^verbatim>\<open>types/transaction.ts\<close>.\<close>

record 'n Transaction =
  t_id :: uuid
  t_user_id :: uuid
  t_date :: js_date
  t_type :: transaction_type
  clientSupplier :: string
  t_amount :: 'n
  t_description :: string
  paymentMethod :: payment_method
  createdAt :: js_date


definition toISODate :: "js_date \<Rightarrow> pg_date" where
  "toISODate d = d div 86400000"


subsection \<open>Aggregation: \<^verbatim>\<open>getFilteredTransactions\<close> and \<^verbatim>\<open>getSummary\<close>\<close>

datatype type_filter = All_types | Only transaction_type

record filters =
  startDate :: "js_date option"
  endDate :: "js_date option"
  f_type :: "type_filter option"
  search :: "string option"

text \<open>
  The callback of \<^verbatim>\<open>transactions.filter\<close>. \<^verbatim>\<open>String.prototype.toLowerCase\<close> is a parameter;
  \<^verbatim>\<open>includes\<close> is \<^const>\<open>sublist\<close> (a contiguous part). A \<^verbatim>\<open>Date\<close> and the strings
  \<^verbatim>\<open>'income'\<close>, \<^verbatim>\<open>'expense'\<close>, \<^verbatim>\<open>'all'\<close> are truthy, the empty string is not.
\<close>

definition keepTransaction :: "(string \<Rightarrow> string) \<Rightarrow> filters \<Rightarrow> 'n Transaction \<Rightarrow> bool" where
  "keepTransaction toLowerCase f t =
     (if (case startDate f of None \<Rightarrow> False | Some s \<Rightarrow> t_date t < s) then False
      else if (case endDate f of None \<Rightarrow> False | Some e \<Rightarrow> t_date t > e) then False
      else if (case f_type f of None \<Rightarrow> False | Some All_types \<Rightarrow> False
                 | Some (Only ty) \<Rightarrow> t_type t \<noteq> ty) then False
      else (case search f of
              None \<Rightarrow> True
            | Some s \<Rightarrow>
                if s \<noteq> [] then
                  (let searchLower = toLowerCase s
                   in sublist searchLower (toLowerCase (clientSupplier t))
                      \<or> sublist searchLower (toLowerCase (t_description t)))
                else True))"

definition getFilteredTransactions ::
  "(string \<Rightarrow> string) \<Rightarrow> 'n Transaction list \<Rightarrow> filters \<Rightarrow> 'n Transaction list" where
  "getFilteredTransactions toLowerCase transactions f =
     filter (keepTransaction toLowerCase f) transactions"

record 'n summary =
  s_income :: 'n
  s_expense :: 'n
  s_balance :: 'n

text \<open>\<^verbatim>\<open>reduce((sum, t) => sum + t.amount, 0)\<close> is a left fold from \<open>0\<close>.\<close>

definition getSummary :: "('n::{zero,plus,minus}) Transaction list \<Rightarrow> 'n summary" where
  "getSummary filteredTransactions =
     (let inc = foldl (\<lambda>sum t. sum + t_amount t) 0
                  (filter (\<lambda>t. t_type t = income) filteredTransactions);
          exp = foldl (\<lambda>sum t. sum + t_amount t) 0
                  (filter (\<lambda>t. t_type t = expense) filteredTransactions)
      in \<lparr> s_income = inc, s_expense = exp, s_balance = inc - exp \<rparr>)"

subsection \<open>The arithmetic of \<^verbatim>\<open>number\<close>: IEEE 754 binary64\<close>

text \<open>
  A finite double is \<open>Double m e\<close>, the number \<open>m * 2 ^ e\<close>, kept in normal form:
  \<open>m = 0\<close> and \<open>e = 0\<close>, or \<open>2 ^ 52 \<le> \<bar>m\<bar> < 2 ^ 53\<close>. Sums and differences are the
  exact result rounded to 53 bits, ties to even. The exponent is unbounded (no overflow to
  infinity, no subnormals) and there is no negative zero and no NaN: none arises from the
  sums and differences of the amounts of a ledger.
\<close>

datatype double = Double int int

function bit_length :: "int \<Rightarrow> int" where
  "bit_length n = (if n \<le> 0 then 0 else 1 + bit_length (n div 2))"
  by pat_completeness auto

termination
  by (relation "measure nat") auto

declare bit_length.simps [simp del]

definition round_mantissa :: "int \<Rightarrow> int \<Rightarrow> int \<times> int" where
  "round_mantissa m e =
     (if m = 0 then (0, 0)
      else let b = bit_length m in
        if b \<le> 53 then (m * 2 ^ nat (53 - b), e - (53 - b))
        else let s = b - 53;
                 q = m div 2 ^ nat s;
                 r = m mod 2 ^ nat s;
                 h = 2 ^ nat (s - 1);
                 q' = (if r > h \<or> (r = h \<and> odd q) then q + 1 else q)
             in if q' = 2 ^ 53 then (2 ^ 52, e + s + 1) else (q', e + s))"

definition round_double :: "int \<Rightarrow> int \<Rightarrow> double" where
  "round_double m e =
     (case round_mantissa \<bar>m\<bar> e of (m', e') \<Rightarrow> Double (sgn m * m') e')"

instantiation double :: "{zero,plus,minus}"
begin

definition zero_double :: double where
  "zero_double = Double 0 0"

fun plus_double :: "double \<Rightarrow> double \<Rightarrow> double" where
  "plus_double (Double m1 e1) (Double m2 e2) =
     (let e = min e1 e2
      in round_double (m1 * 2 ^ nat (e1 - e) + m2 * 2 ^ nat (e2 - e)) e)"

fun minus_double :: "double \<Rightarrow> double \<Rightarrow> double" where
  "minus_double (Double m1 e1) (Double m2 e2) =
     (let e = min e1 e2
      in round_double (m1 * 2 ^ nat (e1 - e) - m2 * 2 ^ nat (e2 - e)) e)"

instance ..

end

text \<open>The rational number that a double stands for.\<close>

definition double_value :: "double \<Rightarrow> rat" where
  "double_value d =
     (case d of Double m e \<Rightarrow>
        if e \<ge> 0 then of_int m * 2 ^ nat e else of_int m / 2 ^ nat (- e))"

section \<open>The transaction store\<close>

text \<open>
  Errors that the database reports. \<open>Unauthorized\<close> is the rejection of a statement by a
  row-level-security policy (SQLSTATE 42501, insufficient privilege); \<open>AmountRefused\<close> is
  the rejection of an amount by its column.
\<close>

datatype db_error = Unauthorized | UniqueViolation | SyntaxError | AmountRefused

text \<open>
  The column is \<^verbatim>\<open>amount numeric(12,2) NOT NULL\<close>: a supplied amount is rounded to two
  decimals, and refused when the rounded value needs more than ten digits before the point
  or when no number arrives (NaN and the infinities travel as \<^verbatim>\<open>null\<close>). What the column
  makes of a \<^verbatim>\<open>number\<close> is an argument \<open>numeric\<close> of the operations below: \<open>Some v\<close> when
  it stores \<open>v\<close>, \<open>None\<close> when it refuses. A statement that carries a refused amount fails
  as a whole and changes nothing. On exact numbers the column is \<open>numeric_12_2\<close>, which
  rounds half away from zero.
\<close>

definition numeric_12_2 :: "rat \<Rightarrow> rat option" where
  "numeric_12_2 a =
     (let cents = (if 0 \<le> a then \<lfloor>a * 100 + 1 / 2\<rfloor> else - \<lfloor>- a * 100 + 1 / 2\<rfloor>)
      in if \<bar>cents\<bar> < 10 ^ 12 then Some (of_int cents / 100) else None)"

text \<open>
  The session's \<^verbatim>\<open>auth.uid()\<close> is \<open>None\<close> for a visitor who is not signed in. All policies
  on \<^verbatim>\<open>transactions\<close> are \<^verbatim>\<open>TO authenticated\<close>.
\<close>

definition authenticated :: "(uuid \<Rightarrow> bool) \<Rightarrow> uuid option \<Rightarrow> bool" where
  "authenticated p auth = (case auth of None \<Rightarrow> False | Some uid \<Rightarrow> p uid)"

subsection \<open>Insert: \<^verbatim>\<open>addTransaction\<close> under the insert policy\<close>

text \<open>
  The policy \<^verbatim>\<open>"Users with edit or insert_income can insert income"\<close>:
  \<^verbatim>\<open>WITH CHECK ((type = 'income' AND can_insert_income(auth.uid())) OR
  (type = 'expense' AND can_insert_expense(auth.uid())))\<close>.
\<close>

definition insert_policy :: "user_role list \<Rightarrow> uuid option \<Rightarrow> 'n DbTransaction \<Rightarrow> bool" where
  "insert_policy roles auth row =
     authenticated (\<lambda>uid. (db_type row = income \<and> can_insert_income roles uid)
                        \<or> (db_type row = expense \<and> can_insert_expense roles uid)) auth"

text \<open>The argument of \<^verbatim>\<open>addTransaction\<close>: a \<^verbatim>\<open>Transaction\<close> without id, createdAt and user_id.\<close>

record 'n candidate =
  c_date :: js_date
  c_type :: transaction_type
  c_clientSupplier :: string
  c_amount :: 'n
  c_description :: string
  c_paymentMethod :: payment_method

text \<open>
  The schema of the form \<^verbatim>\<open>TransactionForm\<close>, which validates what the user typed before
  it calls \<^verbatim>\<open>addTransaction\<close>: clientSupplier of 1 to 100 characters, a positive amount,
  description of 1 to 500 characters (date, type and paymentMethod are of their types).
\<close>

definition formSchema :: "('n::{zero,ord}) candidate \<Rightarrow> bool" where
  "formSchema c =
     (1 \<le> length (c_clientSupplier c) \<and> length (c_clientSupplier c) \<le> 100
      \<and> 0 < c_amount c
      \<and> 1 \<le> length (c_description c) \<and> length (c_description c) \<le> 500)"

text \<open>
  \<^verbatim>\<open>addTransaction\<close> returns nothing when no user is signed in. Otherwise it inserts one row;
  the server gives the row its id (\<^verbatim>\<open>gen_random_uuid()\<close>) and its timestamps (\<^verbatim>\<open>now()\<close>),
  which are arguments here. The row is formed first, with the amount as the column takes
  it, and then checked by the policy. The result is the response and the table afterwards;
  the hook returns \<^verbatim>\<open>false\<close> for an error and \<^verbatim>\<open>true\<close> for a row.
\<close>

definition addTransaction ::
  "('n \<Rightarrow> 'n option) \<Rightarrow> user_role list \<Rightarrow> 'n DbTransaction list \<Rightarrow> uuid option \<Rightarrow> 'n candidate
   \<Rightarrow> uuid \<Rightarrow> timestamptz \<Rightarrow> (db_error + 'n DbTransaction) option \<times> 'n DbTransaction list" where
  "addTransaction numeric roles txs user c new_id now =
     (case user of
        None \<Rightarrow> (None, txs)
      | Some uid \<Rightarrow>
          (case numeric (c_amount c) of
             None \<Rightarrow> (Some (Inl AmountRefused), txs)
           | Some v \<Rightarrow>
               (let row = \<lparr> db_id = new_id,
                            db_user_id = uid,
                            db_date = toISODate (c_date c),
                            db_type = c_type c,
                            client_supplier = c_clientSupplier c,
                            db_amount = v,
                            db_description = Some (c_description c),
                            db_payment_method = c_paymentMethod c,
                            created_at = now,
                            updated_at = now \<rparr>
                in if insert_policy roles (Some uid) row then (Some (Inr row), txs @ [row])
                   else (Some (Inl Unauthorized), txs))))"

text \<open>
  The action \<^verbatim>\<open>insertTransaction\<close> of the edge function takes the whole row, owner
  included, from the \<^verbatim>\<open>data\<close> of the request and inserts it:
  \<^verbatim>\<open>INSERT INTO transactions (user_id, date, type, client_supplier, amount, description,
  payment_method) VALUES (...) RETURNING *\<close>. It reads no session and no role.
\<close>

record 'n insert_data =
  in_user_id :: uuid
  in_date :: pg_date
  in_type :: transaction_type
  in_client_supplier :: string
  in_amount :: 'n
  in_description :: "string option"
  in_payment_method :: payment_method

definition insertTransaction_action ::
  "('n \<Rightarrow> 'n option) \<Rightarrow> 'n DbTransaction list \<Rightarrow> 'n insert_data \<Rightarrow> uuid \<Rightarrow> timestamptz
   \<Rightarrow> (db_error + 'n DbTransaction) \<times> 'n DbTransaction list" where
  "insertTransaction_action numeric txs data new_id now =
     (case numeric (in_amount data) of
        None \<Rightarrow> (Inl AmountRefused, txs)
      | Some v \<Rightarrow>
          (let row = \<lparr> db_id = new_id,
                       db_user_id = in_user_id data,
                       db_date = in_date data,
                       db_type = in_type data,
                       client_supplier = in_client_supplier data,
                       db_amount = v,
                       db_description = in_description data,
                       db_payment_method = in_payment_method data,
                       created_at = now,
                       updated_at = now \<rparr>
           in (Inr row, txs @ [row])))"

subsection \<open>List: \<^verbatim>\<open>fetchTransactions\<close> and the \<^verbatim>\<open>getTransactions\<close> action\<close>



subsection \<open>Update: \<^verbatim>\<open>updateTransaction\<close> (hook and action)\<close>

text \<open>The partial transaction that the hook receives; a missing key is \<open>None\<close>.\<close>

record 'n changes =
  ch_date :: "js_date option"
  ch_type :: "transaction_type option"
  ch_clientSupplier :: "string option"
  ch_amount :: "'n option"
  ch_description :: "string option"
  ch_paymentMethod :: "payment_method option"

text \<open>The object \<^verbatim>\<open>updates\<close>: the columns to set (also the \<^verbatim>\<open>data\<close> of the action).\<close>

record 'n updates =
  up_date :: "pg_date option"
  up_type :: "transaction_type option"
  up_client_supplier :: "string option"
  up_amount :: "'n option"
  up_description :: "string option"
  up_payment_method :: "payment_method option"

text \<open>
  \<^verbatim>\<open>if (transaction.x) updates.x = ...\<close> for date, type, clientSupplier and paymentMethod (of
  these only the empty string is a falsy value of its type), and
  \<^verbatim>\<open>if (transaction.x !== undefined)\<close> for amount and description.
\<close>

definition build_updates :: "'n changes \<Rightarrow> 'n updates" where
  "build_updates tr =
     \<lparr> up_date = (case ch_date tr of None \<Rightarrow> None | Some d \<Rightarrow> Some (toISODate d)),
       up_type = ch_type tr,
       up_client_supplier =
         (case ch_clientSupplier tr of None \<Rightarrow> None | Some s \<Rightarrow> if s \<noteq> [] then Some s else None),
       up_amount = ch_amount tr,
       up_description = ch_description tr,
       up_payment_method = ch_paymentMethod tr \<rparr>"

text \<open>
  The values as the columns take them: the amount, when one is supplied, is replaced by
  what the column stores, and the statement is refused when the column refuses it.
\<close>

definition coerce_updates :: "('n \<Rightarrow> 'n option) \<Rightarrow> 'n updates \<Rightarrow> db_error + 'n updates" where
  "coerce_updates numeric u =
     (case up_amount u of
        None \<Rightarrow> Inr u
      | Some a \<Rightarrow>
          (case numeric a of
             None \<Rightarrow> Inl AmountRefused
           | Some v \<Rightarrow> Inr (u \<lparr> up_amount := Some v \<rparr>)))"

text \<open>
  The effect of an \<^verbatim>\<open>UPDATE\<close> on one row, given the values as the columns take them; the
  trigger \<^verbatim>\<open>update_transactions_updated_at\<close> sets \<^verbatim>\<open>updated_at\<close> to \<^verbatim>\<open>now()\<close>.
\<close>

definition apply_updates :: "'n updates \<Rightarrow> timestamptz \<Rightarrow> 'n DbTransaction \<Rightarrow> 'n DbTransaction" where
  "apply_updates u now r =
     r \<lparr> db_date := (case up_date u of None \<Rightarrow> db_date r | Some d \<Rightarrow> d),
         db_type := (case up_type u of None \<Rightarrow> db_type r | Some t \<Rightarrow> t),
         client_supplier := (case up_client_supplier u of None \<Rightarrow> client_supplier r | Some s \<Rightarrow> s),
         db_amount := (case up_amount u of None \<Rightarrow> db_amount r | Some a \<Rightarrow> a),
         db_description := (case up_description u of None \<Rightarrow> db_description r | Some d \<Rightarrow> Some d),
         db_payment_method :=
           (case up_payment_method u of None \<Rightarrow> db_payment_method r | Some m \<Rightarrow> m),
         updated_at := now \<rparr>"

text \<open>
  The hook: \<^verbatim>\<open>update(updates).eq('id', id)\<close> under the policy \<^verbatim>\<open>USING (can_edit(auth.uid()))\<close>;
  a row that the policy hides is not updated and no error is raised. The hook returns
  \<^verbatim>\<open>false\<close> when the database reports an error, and then nothing has changed, and
  \<^verbatim>\<open>true\<close> when it reports none.
\<close>

definition updateTransaction ::
  "('n \<Rightarrow> 'n option) \<Rightarrow> user_role list \<Rightarrow> 'n DbTransaction list \<Rightarrow> uuid option \<Rightarrow> uuid
   \<Rightarrow> 'n changes \<Rightarrow> timestamptz \<Rightarrow> bool \<times> 'n DbTransaction list" where
  "updateTransaction numeric roles txs auth id' tr now =
     (case coerce_updates numeric (build_updates tr) of
        Inl e \<Rightarrow> (False, txs)
      | Inr u \<Rightarrow>
          (True,
           map (\<lambda>r. if db_id r = id' \<and> authenticated (can_edit roles) auth
                     then apply_updates u now r else r) txs))"

text \<open>
  The action: one \<^verbatim>\<open>SET\<close> clause for each key of \<^verbatim>\<open>data\<close> that is not undefined, then
  \<^verbatim>\<open>updated_at = NOW()\<close>. With no clause the statement is \<^verbatim>\<open>SET , updated_at = NOW()\<close>,
  which the database refuses. The result is the first returned row, if any. The action
  reads no session and no role.
\<close>

definition updateTransaction_action ::
  "('n \<Rightarrow> 'n option) \<Rightarrow> 'n DbTransaction list \<Rightarrow> uuid \<Rightarrow> 'n updates \<Rightarrow> timestamptz
   \<Rightarrow> (db_error + 'n DbTransaction option) \<times> 'n DbTransaction list" where
  "updateTransaction_action numeric txs id' data now =
     (if up_date data = None \<and> up_type data = None \<and> up_client_supplier data = None
         \<and> up_amount data = None \<and> up_description data = None \<and> up_payment_method data = None
      then (Inl SyntaxError, txs)
      else
        (case coerce_updates numeric data of
           Inl e \<Rightarrow> (Inl e, txs)
         | Inr u \<Rightarrow>
             (let txs' = map (\<lambda>r. if db_id r = id' then apply_updates u now r else r) txs
              in (Inr (find (\<lambda>r. db_id r = id') txs'), txs'))))"

subsection \<open>Delete: \<^verbatim>\<open>deleteTransaction\<close> (hook and action)\<close>

text \<open>
  The hook: \<^verbatim>\<open>delete().eq('id', id)\<close> under the policy \<^verbatim>\<open>USING (can_delete(auth.uid()))\<close>;
  it returns \<^verbatim>\<open>true\<close> when the database reports no error. The action:
  \<^verbatim>\<open>DELETE FROM transactions WHERE id = id\<close>, then \<^verbatim>\<open>{ success: true }\<close>.
\<close>

definition deleteTransaction ::
  "user_role list \<Rightarrow> 'n DbTransaction list \<Rightarrow> uuid option \<Rightarrow> uuid \<Rightarrow> bool \<times> 'n DbTransaction list" where
  "deleteTransaction roles txs auth id' =
     (True, filter (\<lambda>r. \<not> (db_id r = id' \<and> authenticated (can_delete roles) auth)) txs)"

definition deleteTransaction_action ::
  "'n DbTransaction list \<Rightarrow> uuid \<Rightarrow> bool \<times> 'n DbTransaction list" where
  "deleteTransaction_action txs id' = (True, filter (\<lambda>r. db_id r \<noteq> id') txs)"

section \<open>The user and role directory\<close>

subsection \<open>Registration through the \<^verbatim>\<open>signup\<close> action\<close>

record user_row =
  u_id :: uuid
  u_email :: string
  u_password_hash :: string
  u_full_name :: string
  u_created_at :: timestamptz

record server_db =
  users :: "user_row list"
  srv_user_roles :: "user_role list"

record signup_body =
  email :: string
  password :: string
  fullName :: string

text \<open>
  What the database makes up for one signup: the user's id, the salted hash of the
  password, the time, and the id of the row of \<^verbatim>\<open>user_roles\<close>.
\<close>

record signup_generated =
  g_user_id :: uuid
  g_password_hash :: string
  g_now :: timestamptz
  g_role_id :: uuid

datatype signup_error = AlreadyRegistered

text \<open>
  The two kinds of JavaScript value that meet in the comparison of the action, and \<^verbatim>\<open>===\<close>
  on them: values of different types are never strictly equal.
\<close>

datatype js_value = JsNumber int | JsBigInt int

fun strict_equals :: "js_value \<Rightarrow> js_value \<Rightarrow> bool" where
  "strict_equals (JsNumber a) (JsNumber b) = (a = b)"
| "strict_equals (JsBigInt a) (JsBigInt b) = (a = b)"
| "strict_equals _ _ = False"

text \<open>
  \<^verbatim>\<open>SELECT id FROM users WHERE email = email\<close>; a row means \<^verbatim>\<open>'User already registered'\<close>.
  Otherwise the user is inserted and the users are counted with
  \<^verbatim>\<open>SELECT COUNT(*) as count FROM users\<close>. \<^verbatim>\<open>COUNT(*)\<close> is a \<^verbatim>\<open>bigint\<close>, which the driver that
  the function imports (deno-postgres v0.17.0) hands over as a BigInt, whatever the cast
  to \<^verbatim>\<open>{ count: number }\<close> says. The role is \<^verbatim>\<open>'admin'\<close> when \<^verbatim>\<open>count === 1\<close> and
  \<^verbatim>\<open>'view_only'\<close> when not.
\<close>

definition signup ::
  "server_db \<Rightarrow> signup_body \<Rightarrow> signup_generated \<Rightarrow> (signup_error + user_row) \<times> server_db" where
  "signup db body g =
     (if list_ex (\<lambda>u. u_email u = email body) (users db) then (Inl AlreadyRegistered, db)
      else
        (let user = \<lparr> u_id = g_user_id g, u_email = email body,
                       u_password_hash = g_password_hash g, u_full_name = fullName body,
                       u_created_at = g_now g \<rparr>;
             users' = users db @ [user];
             count = JsBigInt (int (length users'));
             role = (if strict_equals count (JsNumber 1) then admin else view_only)
         in (Inr user,
             \<lparr> users = users',
               srv_user_roles = srv_user_roles db
                 @ [\<lparr> ur_id = g_role_id g, ur_user_id = u_id user, ur_role = role \<rparr>] \<rparr>)))"

subsection \<open>Registration through the trigger \<^verbatim>\<open>handle_new_user\<close>\<close>

record profile =
  p_id :: uuid
  p_email :: string
  p_full_name :: "string option"

record auth_db =
  profiles :: "profile list"
  user_roles :: "user_role list"

text \<open>The row \<^verbatim>\<open>NEW\<close> of \<^verbatim>\<open>auth.users\<close>, as far as the trigger reads it.\<close>

record new_user =
  nu_id :: uuid
  nu_email :: string
  nu_full_name :: "string option"

text \<open>
  The migration defines the function; the \<^verbatim>\<open>CREATE TRIGGER\<close> that runs it for each new row of
  \<^verbatim>\<open>auth.users\<close> is not in the dump. The function inserts the profile, then a role: \<^verbatim>\<open>'admin'\<close> when
  \<^verbatim>\<open>(SELECT COUNT(*) FROM public.user_roles) = 0\<close>, else \<^verbatim>\<open>'view_only'\<close>. The id of the role row
  is the column default, an argument here.
\<close>

definition handle_new_user :: "auth_db \<Rightarrow> new_user \<Rightarrow> uuid \<Rightarrow> auth_db" where
  "handle_new_user db new role_id =
     \<lparr> profiles = profiles db
         @ [\<lparr> p_id = nu_id new, p_email = nu_email new, p_full_name = nu_full_name new \<rparr>],
       user_roles = user_roles db
         @ [\<lparr> ur_id = role_id, ur_user_id = nu_id new,
              ur_role = (if length (user_roles db) = 0 then admin else view_only) \<rparr>] \<rparr>"

fun handle_new_users :: "auth_db \<Rightarrow> (new_user \<times> uuid) list \<Rightarrow> auth_db" where
  "handle_new_users db [] = db"
| "handle_new_users db ((new, role_id) # rest) =
     handle_new_users (handle_new_user db new role_id) rest"

text \<open>
  The roles that a registration order calls for: \<^verbatim>\<open>admin\<close> for the first of \<open>n\<close> users,
  \<^verbatim>\<open>view_only\<close> for every later one.
\<close>

definition bootstrap_roles :: "nat \<Rightarrow> app_role list" where
  "bootstrap_roles n = (case n of 0 \<Rightarrow> [] | Suc k \<Rightarrow> admin # replicate k view_only)"

subsection \<open>Changing a role: the \<^verbatim>\<open>updateUserRole\<close> action and \<^verbatim>\<open>handleRoleChange\<close>\<close>

text \<open>
  The action: \<^verbatim>\<open>DELETE FROM user_roles WHERE user_id = userId\<close>, then
  \<^verbatim>\<open>INSERT INTO user_roles (user_id, role) VALUES (userId, role)\<close>; the id of the new row is
  the column default, an argument here.
\<close>

definition updateUserRole :: "user_role list \<Rightarrow> uuid \<Rightarrow> app_role \<Rightarrow> uuid \<Rightarrow> user_role list" where
  "updateUserRole tbl userId role new_id =
     filter (\<lambda>r. ur_user_id r \<noteq> userId) tbl
       @ [\<lparr> ur_id = new_id, ur_user_id = userId, ur_role = role \<rparr>]"

text \<open>
  The page \<^verbatim>\<open>Users\<close>: \<^verbatim>\<open>from('user_roles').update({ role: newRole }).eq('id', roleId)\<close> under the
  policy \<^verbatim>\<open>"Admins can manage all roles"\<close>, \<^verbatim>\<open>USING (has_role(auth.uid(), 'admin'))\<close>: for
  another caller no row is visible and none is updated. The table has
  \<^verbatim>\<open>UNIQUE (user_id, role)\<close>, so the update is refused when the user of the row already has
  the new role in another row. \<^verbatim>\<open>userId\<close> is used for the page's own list only.
\<close>

definition handleRoleChange ::
  "user_role list \<Rightarrow> uuid option \<Rightarrow> uuid \<Rightarrow> uuid \<Rightarrow> app_role \<Rightarrow> db_error option \<times> user_role list" where
  "handleRoleChange tbl auth userId roleId newRole =
     (if \<not> authenticated (\<lambda>uid. has_role tbl uid admin) auth then (None, tbl)
      else if list_ex (\<lambda>t. ur_id t = roleId
                \<and> list_ex (\<lambda>r. ur_user_id r = ur_user_id t \<and> ur_role r = newRole
                                 \<and> ur_id r \<noteq> roleId) tbl) tbl
      then (Some UniqueViolation, tbl)
      else (None, map (\<lambda>r. if ur_id r = roleId then r \<lparr> ur_role := newRole \<rparr> else r) tbl))"

section \<open>Sample data\<close>

text \<open>
  Concrete inputs for the instances below. \<open>sample_toLowerCase\<close> lowers the letter A only,
  which is enough for the searches of the samples.
\<close>

definition sample_toLowerCase :: "string \<Rightarrow> string" where
  "sample_toLowerCase s = map (\<lambda>c. if c = CHR ''A'' then CHR ''a'' else c) s"

definition sample_acme :: "int Transaction" where
  "sample_acme = \<lparr> t_id = ''t1'', t_user_id = ''u1'', t_date = 1700000000000, t_type = income,
      clientSupplier = ''Acme'', t_amount = 100, t_description = [], paymentMethod = pix,
      createdAt = 1700000000000 \<rparr>"

definition sample_rent :: "int Transaction" where
  "sample_rent = \<lparr> t_id = ''t2'', t_user_id = ''u2'', t_date = 1700000000000, t_type = expense,
      clientSupplier = ''Imobiliaria'', t_amount = 30, t_description = ''aluguel'',
      paymentMethod = boleto, createdAt = 1700000000001 \<rparr>"

text \<open>The doubles nearest to 0.1, 0.2 and 0.3, and an income of a given amount.\<close>

definition js_0_1 :: double where
  "js_0_1 = Double 7205759403792794 (- 56)"

definition js_0_2 :: double where
  "js_0_2 = Double 7205759403792794 (- 55)"

definition js_0_3 :: double where
  "js_0_3 = Double 5404319552844595 (- 54)"

definition sample_income :: "double \<Rightarrow> double Transaction" where
  "sample_income a = \<lparr> t_id = ''t'', t_user_id = ''u1'', t_date = 1700000000000, t_type = income,
      clientSupplier = ''Acme'', t_amount = a, t_description = [], paymentMethod = pix,
      createdAt = 1700000000000 \<rparr>"


text \<open>A table of roles, stored transactions, a candidate, the data of an insert and updates.\<close>

definition sample_roles :: "user_role list" where
  "sample_roles =
     [\<lparr> ur_id = ''r1'', ur_user_id = ''u1'', ur_role = admin \<rparr>,
      \<lparr> ur_id = ''r2'', ur_user_id = ''u2'', ur_role = insert_income \<rparr>,
      \<lparr> ur_id = ''r3'', ur_user_id = ''u3'', ur_role = edit \<rparr>,
      \<lparr> ur_id = ''r4'', ur_user_id = ''u4'', ur_role = view_only \<rparr>]"

definition sample_row :: "int DbTransaction" where
  "sample_row = \<lparr> db_id = ''t1'', db_user_id = ''u1'', db_date = 19675, db_type = income,
      client_supplier = ''Acme'', db_amount = 100, db_description = Some ''venda'',
      db_payment_method = pix, created_at = 1700000000000, updated_at = 1700000000000 \<rparr>"

definition sample_stored :: "rat DbTransaction" where
  "sample_stored = \<lparr> db_id = ''t1'', db_user_id = ''u1'', db_date = 19675, db_type = income,
      client_supplier = ''Acme'', db_amount = 100, db_description = Some ''venda'',
      db_payment_method = pix, created_at = 1700000000000, updated_at = 1700000000000 \<rparr>"

definition sample_expense :: "rat candidate" where
  "sample_expense = \<lparr> c_date = 1700000000000, c_type = expense, c_clientSupplier = ''Loja'',
      c_amount = 50, c_description = ''compra'', c_paymentMethod = dinheiro \<rparr>"

definition sample_expense_data :: "rat insert_data" where
  "sample_expense_data = \<lparr> in_user_id = ''u2'', in_date = 19675, in_type = expense,
      in_client_supplier = ''Loja'', in_amount = 50, in_description = Some ''compra'',
      in_payment_method = dinheiro \<rparr>"

definition sample_expense_row :: "rat DbTransaction" where
  "sample_expense_row = \<lparr> db_id = ''t2'', db_user_id = ''u2'', db_date = 19675, db_type = expense,
      client_supplier = ''Loja'', db_amount = 50, db_description = Some ''compra'',
      db_payment_method = dinheiro, created_at = 1700000000100, updated_at = 1700000000100 \<rparr>"

definition amount_minus_5 :: "rat changes" where
  "amount_minus_5 = \<lparr> ch_date = None, ch_type = None, ch_clientSupplier = None,
      ch_amount = Some (- 5), ch_description = None, ch_paymentMethod = None \<rparr>"

definition data_amount_minus_5 :: "rat updates" where
  "data_amount_minus_5 = \<lparr> up_date = None, up_type = None, up_client_supplier = None,
      up_amount = Some (- 5), up_description = None, up_payment_method = None \<rparr>"

definition sample_changes :: "rat changes" where
  "sample_changes = \<lparr> ch_date = None, ch_type = None, ch_clientSupplier = Some [],
      ch_amount = Some (1 / 8), ch_description = Some [], ch_paymentMethod = None \<rparr>"



definition sample_two_roles :: "user_role list" where
  "sample_two_roles =
     [\<lparr> ur_id = ''r1'', ur_user_id = ''u1'', ur_role = admin \<rparr>,
      \<lparr> ur_id = ''r5'', ur_user_id = ''u5'', ur_role = edit \<rparr>,
      \<lparr> ur_id = ''r6'', ur_user_id = ''u5'', ur_role = insert_income \<rparr>]"

definition sample_signup_body :: signup_body where
  "sample_signup_body = \<lparr> email = ''ana@example.com'', password = ''secret1'', fullName = ''Ana'' \<rparr>"

definition sample_signup_generated :: signup_generated where
  "sample_signup_generated =
     \<lparr> g_user_id = ''u1'', g_password_hash = ''h1'', g_now = 1700000000000, g_role_id = ''r1'' \<rparr>"

definition sample_new_user :: new_user where
  "sample_new_user = \<lparr> nu_id = ''u1'', nu_email = ''ana@example.com'', nu_full_name = Some ''Ana'' \<rparr>"


section \<open>Agreement of the two layers\<close>

lemma role_in_fetched:
  "r \<in> set (fetchUserRoles tbl uid) \<longleftrightarrow> list_ex (\<lambda>row. ur_user_id row = uid \<and> ur_role row = r) tbl"
  by (induction tbl) (auto simp: fetchUserRoles_def)

lemma app_role_closed:
  "(r::app_role) \<in> set [admin, view_only, edit, insert_expenses, insert_income]"
  by (cases r) simp_all

lemma has_role_fetched: "has_role tbl uid r = (r \<in> set (fetchUserRoles tbl uid))"
  by (simp add: has_role_def role_in_fetched)

lemma can_view_fetched: "can_view tbl uid = canView (fetchUserRoles tbl uid)"
proof -
  have closed: "\<And>row. ur_role row = admin \<or> ur_role row = view_only \<or> ur_role row = edit
      \<or> ur_role row = insert_expenses \<or> ur_role row = insert_income"
    using app_role_closed by simp
  have "can_view tbl uid = list_ex (\<lambda>row. ur_user_id row = uid) tbl"
    by (simp add: can_view_def closed)
  also have "\<dots> = canView (fetchUserRoles tbl uid)"
    by (induction tbl) (auto simp: canView_def fetchUserRoles_def)
  finally show ?thesis .
qed

lemma can_edit_fetched: "can_edit tbl uid = canEdit (fetchUserRoles tbl uid)"
  by (induction tbl) (auto simp: can_edit_def canEdit_def isAdmin_def fetchUserRoles_def)

lemma can_delete_fetched: "can_delete tbl uid = canDelete (fetchUserRoles tbl uid)"
  by (induction tbl) (auto simp: can_delete_def canDelete_def isAdmin_def fetchUserRoles_def)

lemma can_insert_expense_fetched:
  "can_insert_expense tbl uid = canInsertExpense (fetchUserRoles tbl uid)"
  by (induction tbl)
     (auto simp: can_insert_expense_def canInsertExpense_def isAdmin_def fetchUserRoles_def)

lemma can_insert_income_fetched:
  "can_insert_income tbl uid = canInsertIncome (fetchUserRoles tbl uid)"
  by (induction tbl)
     (auto simp: can_insert_income_def canInsertIncome_def isAdmin_def fetchUserRoles_def)

text \<open>
  Claim C1. For every table \<^verbatim>\<open>user_roles\<close> and every user, the six flags of the application
  layer, computed on the roles fetched for that user, equal the six database functions; and for
  every role list the flags are the spec table: view iff the list is non-empty, edit and delete
  iff admin or edit is in it, insert expense (income) iff admin, edit or insert_expenses
  (insert_income) is in it, admin iff admin is in it.
\<close>

theorem role_predicates_agree:
  "canView (fetchUserRoles tbl uid) = can_view tbl uid
   \<and> canEdit (fetchUserRoles tbl uid) = can_edit tbl uid
   \<and> canInsertExpense (fetchUserRoles tbl uid) = can_insert_expense tbl uid
   \<and> canInsertIncome (fetchUserRoles tbl uid) = can_insert_income tbl uid
   \<and> canDelete (fetchUserRoles tbl uid) = can_delete tbl uid
   \<and> isAdmin (fetchUserRoles tbl uid) = has_role tbl uid admin
   \<and> canView roles = (set roles \<noteq> {})
   \<and> canEdit roles = (admin \<in> set roles \<or> edit \<in> set roles)
   \<and> canDelete roles = (admin \<in> set roles \<or> edit \<in> set roles)
   \<and> canInsertExpense roles = (admin \<in> set roles \<or> edit \<in> set roles \<or> insert_expenses \<in> set roles)
   \<and> canInsertIncome roles = (admin \<in> set roles \<or> edit \<in> set roles \<or> insert_income \<in> set roles)
   \<and> isAdmin roles = (admin \<in> set roles)"
  by (simp add: can_view_fetched can_edit_fetched can_delete_fetched can_insert_expense_fetched
      can_insert_income_fetched has_role_fetched)
     (simp add: canView_def canEdit_def canDelete_def canInsertExpense_def canInsertIncome_def
      isAdmin_def)

section \<open>The summary\<close>

lemma foldl_amount:
  fixes a :: "'n::monoid_add"
  shows "foldl (\<lambda>sum t. sum + t_amount t) a xs = a + sum_list (map t_amount xs)"
  by (induction xs arbitrary: a) (simp_all add: add.assoc)

lemma getSummary_sums:
  fixes ts :: "('n::{monoid_add,minus}) Transaction list"
  shows "getSummary ts =
    \<lparr> s_income = sum_list (map t_amount (filter (\<lambda>t. t_type t = income) ts)),
      s_expense = sum_list (map t_amount (filter (\<lambda>t. t_type t = expense) ts)),
      s_balance = sum_list (map t_amount (filter (\<lambda>t. t_type t = income) ts))
                  - sum_list (map t_amount (filter (\<lambda>t. t_type t = expense) ts)) \<rparr>"
  by (simp add: getSummary_def foldl_amount Let_def)

lemma sum_amount_mset:
  fixes ts :: "('n::comm_monoid_add) Transaction list"
  assumes "mset ts' = mset ts"
  shows "sum_list (map t_amount (filter P ts')) = sum_list (map t_amount (filter P ts))"
proof -
  have "mset (map t_amount (filter P ts')) = mset (map t_amount (filter P ts))"
    using assms by (metis mset_filter mset_map)
  then show ?thesis
    by (metis sum_mset_sum_list)
qed

text \<open>
  The sample doubles are the ones nearest to 1/10, 2/10 and 3/10: each is within half a unit
  in the last place.
\<close>

lemma sample_doubles_nearest:
  "\<bar>double_value js_0_1 - 1 / 10\<bar> \<le> 1 / 2 ^ 57"
  "\<bar>double_value js_0_2 - 2 / 10\<bar> \<le> 1 / 2 ^ 56"
  "\<bar>double_value js_0_3 - 3 / 10\<bar> \<le> 1 / 2 ^ 55"
  by (simp_all add: double_value_def js_0_1_def js_0_2_def js_0_3_def)

text \<open>
  Claim C8, as stated, fails on the arithmetic of \<^verbatim>\<open>number\<close>: the incomes 0.1, 0.2, 0.3
  sum to 0.6000000000000001 in this order and to 0.6 in the reverse order, so the two
  summaries of the same transactions differ.
\<close>

theorem getSummary_reorder_counterexample:
  "mset (map sample_income [js_0_3, js_0_2, js_0_1]) = mset (map sample_income [js_0_1, js_0_2, js_0_3])
   \<and> s_income (getSummary (map sample_income [js_0_1, js_0_2, js_0_3])) = Double 5404319552844596 (- 53)
   \<and> s_income (getSummary (map sample_income [js_0_3, js_0_2, js_0_1])) = Double 5404319552844595 (- 53)
   \<and> getSummary (map sample_income [js_0_3, js_0_2, js_0_1])
       \<noteq> getSummary (map sample_income [js_0_1, js_0_2, js_0_3])"
proof (intro conjI)
  show "mset (map sample_income [js_0_3, js_0_2, js_0_1])
      = mset (map sample_income [js_0_1, js_0_2, js_0_3])"
    by simp
  show a: "s_income (getSummary (map sample_income [js_0_1, js_0_2, js_0_3]))
      = Double 5404319552844596 (- 53)"
    by code_simp
  show b: "s_income (getSummary (map sample_income [js_0_3, js_0_2, js_0_1]))
      = Double 5404319552844595 (- 53)"
    by code_simp
  show "getSummary (map sample_income [js_0_3, js_0_2, js_0_1])
      \<noteq> getSummary (map sample_income [js_0_1, js_0_2, js_0_3])"
    using a b by auto
qed

text \<open>
  Claim C8, amended. For amounts of any number type, doubles included, income is the
  left-to-right sum from 0 of the amounts of the incomes, expense that of the amounts of the
  expenses, and balance is income minus expense; on doubles the summary of no transaction is
  all zero. In an exact arithmetic (addition associative and commutative with neutral 0,
  subtraction its inverse: integer cents, exact decimals) income and expense are the sums of
  the amounts, the summary of no transaction is all zero, and every reordering of the
  transactions has the same summary.
\<close>

theorem getSummary_exact_arithmetic:
  fixes ts :: "('n::{zero,plus,minus}) Transaction list"
    and es :: "('e::ab_group_add) Transaction list"
  shows "s_income (getSummary ts)
       = foldl (\<lambda>sum t. sum + t_amount t) 0 (filter (\<lambda>t. t_type t = income) ts)
   \<and> s_expense (getSummary ts)
       = foldl (\<lambda>sum t. sum + t_amount t) 0 (filter (\<lambda>t. t_type t = expense) ts)
   \<and> s_balance (getSummary ts) = s_income (getSummary ts) - s_expense (getSummary ts)
   \<and> getSummary ([] :: double Transaction list) = \<lparr> s_income = 0, s_expense = 0, s_balance = 0 \<rparr>
   \<and> s_income (getSummary es) = sum_list (map t_amount (filter (\<lambda>t. t_type t = income) es))
   \<and> s_expense (getSummary es) = sum_list (map t_amount (filter (\<lambda>t. t_type t = expense) es))
   \<and> getSummary ([] :: 'e Transaction list) = \<lparr> s_income = 0, s_expense = 0, s_balance = 0 \<rparr>
   \<and> (\<forall>es'. mset es' = mset es \<longrightarrow> getSummary es' = getSummary es)"
proof -
  have perm: "getSummary es' = getSummary es" if "mset es' = mset es" for es'
    unfolding getSummary_sums
    using sum_amount_mset [OF that, of "\<lambda>t. t_type t = income"]
      sum_amount_mset [OF that, of "\<lambda>t. t_type t = expense"]
    by simp
  have folds: "s_income (getSummary ts)
       = foldl (\<lambda>sum t. sum + t_amount t) 0 (filter (\<lambda>t. t_type t = income) ts)
     \<and> s_expense (getSummary ts)
       = foldl (\<lambda>sum t. sum + t_amount t) 0 (filter (\<lambda>t. t_type t = expense) ts)
     \<and> s_balance (getSummary ts) = s_income (getSummary ts) - s_expense (getSummary ts)"
    by (simp add: getSummary_def Let_def)
  have zero: "getSummary ([] :: double Transaction list)
      = \<lparr> s_income = 0, s_expense = 0, s_balance = 0 \<rparr>"
    by code_simp
  have sums: "s_income (getSummary es) = sum_list (map t_amount (filter (\<lambda>t. t_type t = income) es))
     \<and> s_expense (getSummary es) = sum_list (map t_amount (filter (\<lambda>t. t_type t = expense) es))
     \<and> getSummary ([] :: 'e Transaction list) = \<lparr> s_income = 0, s_expense = 0, s_balance = 0 \<rparr>"
    by (simp add: getSummary_sums)
  from folds zero sums perm show ?thesis
    by blast
qed

theorem getSummary_exact_arithmetic_witness:
  "mset [sample_rent, sample_acme] = mset [sample_acme, sample_rent]
   \<and> getSummary [sample_rent, sample_acme] = getSummary [sample_acme, sample_rent]
   \<and> getSummary [sample_acme, sample_rent] = \<lparr> s_income = 100, s_expense = 30, s_balance = 70 \<rparr>"
proof -
  have h: "mset [sample_rent, sample_acme] = mset [sample_acme, sample_rent]"
    by simp
  have v: "getSummary [sample_acme, sample_rent] = \<lparr> s_income = 100, s_expense = 30, s_balance = 70 \<rparr>"
    by (simp add: getSummary_def sample_acme_def sample_rent_def)
  from getSummary_exact_arithmetic [where es = "[sample_acme, sample_rent]"] h v show ?thesis
    by blast
qed

section \<open>The filter\<close>

lemma keepTransaction_iff:
  assumes "lower [] = []"
  shows "keepTransaction lower f t \<longleftrightarrow>
     (case startDate f of None \<Rightarrow> True | Some s \<Rightarrow> s \<le> t_date t)
   \<and> (case endDate f of None \<Rightarrow> True | Some e \<Rightarrow> t_date t \<le> e)
   \<and> (case f_type f of None \<Rightarrow> True | Some All_types \<Rightarrow> True | Some (Only ty) \<Rightarrow> t_type t = ty)
   \<and> (case search f of None \<Rightarrow> True
       | Some s \<Rightarrow> sublist (lower s) (lower (clientSupplier t))
                 \<or> sublist (lower s) (lower (t_description t)))"
  using assms
  by (auto simp: keepTransaction_def Let_def split: option.splits type_filter.splits)

text \<open>
  Claim C9. With a \<^verbatim>\<open>toLowerCase\<close> that maps the empty string to itself, a transaction is
  kept if and only if its date is within the bounds that are present (both inclusive), its
  type is the one asked for when the type filter is present and not \<^verbatim>\<open>'all'\<close>, and, when a
  search is present, the lowered search is part of the lowered clientSupplier or of the
  lowered description; the kept transactions come in the order of the input.
\<close>

theorem getFilteredTransactions_keeps:
  assumes "toLowerCase [] = []"
  shows "getFilteredTransactions toLowerCase ts f =
      filter (\<lambda>t. (case startDate f of None \<Rightarrow> True | Some s \<Rightarrow> s \<le> t_date t)
                \<and> (case endDate f of None \<Rightarrow> True | Some e \<Rightarrow> t_date t \<le> e)
                \<and> (case f_type f of None \<Rightarrow> True | Some All_types \<Rightarrow> True
                    | Some (Only ty) \<Rightarrow> t_type t = ty)
                \<and> (case search f of None \<Rightarrow> True
                    | Some s \<Rightarrow> sublist (toLowerCase s) (toLowerCase (clientSupplier t))
                              \<or> sublist (toLowerCase s) (toLowerCase (t_description t)))) ts
    \<and> (t \<in> set (getFilteredTransactions toLowerCase ts f) \<longleftrightarrow>
         t \<in> set ts
         \<and> (\<forall>s. startDate f = Some s \<longrightarrow> s \<le> t_date t)
         \<and> (\<forall>e. endDate f = Some e \<longrightarrow> t_date t \<le> e)
         \<and> (\<forall>ty. f_type f = Some (Only ty) \<longrightarrow> t_type t = ty)
         \<and> (\<forall>s. search f = Some s \<longrightarrow>
                sublist (toLowerCase s) (toLowerCase (clientSupplier t))
                \<or> sublist (toLowerCase s) (toLowerCase (t_description t))))"
proof -
  have eq: "keepTransaction toLowerCase f =
      (\<lambda>t. (case startDate f of None \<Rightarrow> True | Some s \<Rightarrow> s \<le> t_date t)
                \<and> (case endDate f of None \<Rightarrow> True | Some e \<Rightarrow> t_date t \<le> e)
                \<and> (case f_type f of None \<Rightarrow> True | Some All_types \<Rightarrow> True
                    | Some (Only ty) \<Rightarrow> t_type t = ty)
                \<and> (case search f of None \<Rightarrow> True
                    | Some s \<Rightarrow> sublist (toLowerCase s) (toLowerCase (clientSupplier t))
                              \<or> sublist (toLowerCase s) (toLowerCase (t_description t))))"
    using keepTransaction_iff [of toLowerCase, OF assms] by (intro ext) blast
  have mem: "t \<in> set (getFilteredTransactions toLowerCase ts f) \<longleftrightarrow>
      t \<in> set ts \<and> keepTransaction toLowerCase f t"
    by (simp add: getFilteredTransactions_def)
  have spec: "keepTransaction toLowerCase f t \<longleftrightarrow>
           (\<forall>s. startDate f = Some s \<longrightarrow> s \<le> t_date t)
         \<and> (\<forall>e. endDate f = Some e \<longrightarrow> t_date t \<le> e)
         \<and> (\<forall>ty. f_type f = Some (Only ty) \<longrightarrow> t_type t = ty)
         \<and> (\<forall>s. search f = Some s \<longrightarrow>
                sublist (toLowerCase s) (toLowerCase (clientSupplier t))
                \<or> sublist (toLowerCase s) (toLowerCase (t_description t)))"
    unfolding keepTransaction_iff [of toLowerCase, OF assms]
    by (auto split: option.splits type_filter.splits)
  show ?thesis
    unfolding mem spec [symmetric]
    by (simp add: getFilteredTransactions_def eq [symmetric])
qed

theorem getFilteredTransactions_keeps_witness:
  "sample_toLowerCase [] = []
   \<and> sample_acme \<in> set (getFilteredTransactions sample_toLowerCase [sample_acme]
        \<lparr> startDate = None, endDate = None, f_type = Some (Only income), search = Some ''acm'' \<rparr>)"
proof -
  have h: "sample_toLowerCase [] = []"
    by (simp add: sample_toLowerCase_def)
  have s: "sublist ''acm'' ''acme''"
    by (simp add: sublist_Cons_right)
  show ?thesis
    using getFilteredTransactions_keeps [of sample_toLowerCase "[sample_acme]"
        "\<lparr> startDate = None, endDate = None, f_type = Some (Only income), search = Some ''acm'' \<rparr>"
        sample_acme, OF h] h s
    by (simp add: sample_toLowerCase_def sample_acme_def)
qed


section \<open>Update\<close>

lemma coerce_updates_accepted:
  assumes "case up_amount u of None \<Rightarrow> True | Some a \<Rightarrow> numeric a = Some v"
  shows "coerce_updates numeric u
      = Inr (u \<lparr> up_amount := (case up_amount u of None \<Rightarrow> None | Some a \<Rightarrow> Some v) \<rparr>)"
  using assms by (cases "up_amount u") (simp_all add: coerce_updates_def)

lemma coerce_updates_refused:
  assumes "case up_amount u of None \<Rightarrow> False | Some a \<Rightarrow> numeric a = None"
  shows "coerce_updates numeric u = Inl AmountRefused"
  using assms by (cases "up_amount u") (simp_all add: coerce_updates_def)

text \<open>
  Claim C10. In the hook's update, when the column takes the amount of the changes (as the
  value \<open>v\<close>) or no amount is supplied, the hook returns true and each row with the given id
  that the caller may edit gets: the date, type and paymentMethod of the changes when they
  are present; the clientSupplier of the changes when it is present and not the empty string
  (an empty clientSupplier leaves the field as it was); the amount, as the column stores it,
  and the description of the changes whenever they are present (an empty description is
  stored). Every field without an applied change keeps its value, as do id, user_id and
  created_at; every other row is unchanged. When the column refuses the amount, the hook
  returns false and every row is unchanged.
\<close>

theorem updateTransaction_frame:
  "((case ch_amount tr of None \<Rightarrow> True | Some a \<Rightarrow> numeric a = Some v) \<longrightarrow>
      fst (updateTransaction numeric roles txs auth id' tr now) = True
      \<and> list_all2
          (\<lambda>r r'.
             if db_id r = id' \<and> authenticated (can_edit roles) auth then
               db_date r' = (case ch_date tr of None \<Rightarrow> db_date r | Some d \<Rightarrow> toISODate d)
               \<and> db_type r' = (case ch_type tr of None \<Rightarrow> db_type r | Some t \<Rightarrow> t)
               \<and> client_supplier r' =
                   (case ch_clientSupplier tr of None \<Rightarrow> client_supplier r
                    | Some s \<Rightarrow> if s = [] then client_supplier r else s)
               \<and> db_payment_method r' =
                   (case ch_paymentMethod tr of None \<Rightarrow> db_payment_method r | Some m \<Rightarrow> m)
               \<and> db_amount r' = (case ch_amount tr of None \<Rightarrow> db_amount r | Some a \<Rightarrow> v)
               \<and> db_description r' =
                   (case ch_description tr of None \<Rightarrow> db_description r | Some d \<Rightarrow> Some d)
               \<and> db_id r' = db_id r \<and> db_user_id r' = db_user_id r \<and> created_at r' = created_at r
             else r' = r)
          txs (snd (updateTransaction numeric roles txs auth id' tr now)))
   \<and> ((case ch_amount tr of None \<Rightarrow> False | Some a \<Rightarrow> numeric a = None) \<longrightarrow>
        updateTransaction numeric roles txs auth id' tr now = (False, txs))"
proof (intro conjI impI)
  assume a: "case ch_amount tr of None \<Rightarrow> True | Some a \<Rightarrow> numeric a = Some v"
  then have c: "coerce_updates numeric (build_updates tr)
      = Inr (build_updates tr \<lparr> up_amount := (case ch_amount tr of None \<Rightarrow> None | Some a \<Rightarrow> Some v) \<rparr>)"
    using coerce_updates_accepted [where u = "build_updates tr" and numeric = numeric and v = v]
    by (simp add: build_updates_def)
  show "fst (updateTransaction numeric roles txs auth id' tr now) = True"
    by (simp add: updateTransaction_def c)
  show "list_all2
          (\<lambda>r r'.
             if db_id r = id' \<and> authenticated (can_edit roles) auth then
               db_date r' = (case ch_date tr of None \<Rightarrow> db_date r | Some d \<Rightarrow> toISODate d)
               \<and> db_type r' = (case ch_type tr of None \<Rightarrow> db_type r | Some t \<Rightarrow> t)
               \<and> client_supplier r' =
                   (case ch_clientSupplier tr of None \<Rightarrow> client_supplier r
                    | Some s \<Rightarrow> if s = [] then client_supplier r else s)
               \<and> db_payment_method r' =
                   (case ch_paymentMethod tr of None \<Rightarrow> db_payment_method r | Some m \<Rightarrow> m)
               \<and> db_amount r' = (case ch_amount tr of None \<Rightarrow> db_amount r | Some a \<Rightarrow> v)
               \<and> db_description r' =
                   (case ch_description tr of None \<Rightarrow> db_description r | Some d \<Rightarrow> Some d)
               \<and> db_id r' = db_id r \<and> db_user_id r' = db_user_id r \<and> created_at r' = created_at r
             else r' = r)
          txs (snd (updateTransaction numeric roles txs auth id' tr now))"
    unfolding updateTransaction_def c
    by (induction txs)
       (auto simp: apply_updates_def build_updates_def list_all2_map2 split: option.splits)
next
  assume "case ch_amount tr of None \<Rightarrow> False | Some a \<Rightarrow> numeric a = None"
  then have "coerce_updates numeric (build_updates tr) = Inl AmountRefused"
    using coerce_updates_refused [where u = "build_updates tr" and numeric = numeric]
    by (simp add: build_updates_def)
  then show "updateTransaction numeric roles txs auth id' tr now = (False, txs)"
    by (simp add: updateTransaction_def)
qed

lemma numeric_12_2_samples:
  "numeric_12_2 (1 / 8) = Some (13 / 100)"
  "numeric_12_2 (- 5) = Some (- 5)"
  "numeric_12_2 50 = Some 50"
  "numeric_12_2 (- 1 / 1000) = Some 0"
  "numeric_12_2 10000000000 = None"
  by code_simp+

theorem updateTransaction_frame_witness:
  "numeric_12_2 (1 / 8) = Some (13 / 100)
   \<and> updateTransaction numeric_12_2 sample_roles [sample_stored] (Some ''u3'') ''t1'' sample_changes 7
       = (True, [sample_stored \<lparr> db_amount := 13 / 100, db_description := Some [], updated_at := 7 \<rparr>])
   \<and> numeric_12_2 10000000000 = None
   \<and> updateTransaction numeric_12_2 sample_roles [sample_stored] (Some ''u3'') ''t1''
        (sample_changes \<lparr> ch_amount := Some 10000000000 \<rparr>) 7
       = (False, [sample_stored])"
proof -
  have e: "authenticated (can_edit sample_roles) (Some ''u3'')"
    by (simp add: authenticated_def can_edit_def sample_roles_def)
  have u: "updateTransaction numeric_12_2 sample_roles [sample_stored] (Some ''u3'') ''t1'' sample_changes 7
       = (True, [sample_stored \<lparr> db_amount := 13 / 100, db_description := Some [], updated_at := 7 \<rparr>])"
    by (simp add: updateTransaction_def coerce_updates_def build_updates_def apply_updates_def
        sample_changes_def sample_stored_def numeric_12_2_samples e)
  have r: "updateTransaction numeric_12_2 sample_roles [sample_stored] (Some ''u3'') ''t1''
        (sample_changes \<lparr> ch_amount := Some 10000000000 \<rparr>) 7 = (False, [sample_stored])"
    using updateTransaction_frame [where tr = "sample_changes \<lparr> ch_amount := Some 10000000000 \<rparr>"
        and numeric = numeric_12_2 and roles = sample_roles and txs = "[sample_stored]"
        and auth = "Some ''u3''" and id' = "''t1''" and now = 7]
    by (simp add: numeric_12_2_samples)
  from u r numeric_12_2_samples show ?thesis
    by simp
qed

text \<open>
  Claim C7 is not what the code does: the form of the insert refuses an amount that is not
  positive, but no such check is on the way of an update. An editor's update of an existing
  transaction with amount -5, an amount that the column stores as it is, succeeds through
  the hook and stores -5; the action does the same for any caller.
\<close>

theorem update_negative_amount_stored:
  "\<not> formSchema (sample_expense \<lparr> c_amount := - 5 \<rparr>)
   \<and> formSchema sample_expense
   \<and> updateTransaction numeric_12_2 sample_roles [sample_stored] (Some ''u3'') ''t1''
        amount_minus_5 1700000000007
       = (True, [sample_stored \<lparr> db_amount := - 5, updated_at := 1700000000007 \<rparr>])
   \<and> updateTransaction_action numeric_12_2 [sample_stored] ''t1'' data_amount_minus_5 1700000000007
       = (Inr (Some (sample_stored \<lparr> db_amount := - 5, updated_at := 1700000000007 \<rparr>)),
          [sample_stored \<lparr> db_amount := - 5, updated_at := 1700000000007 \<rparr>])"
proof -
  have e: "authenticated (can_edit sample_roles) (Some ''u3'')"
    by (simp add: authenticated_def can_edit_def sample_roles_def)
  have f: "\<not> formSchema (sample_expense \<lparr> c_amount := - 5 \<rparr>) \<and> formSchema sample_expense"
    by (simp add: formSchema_def sample_expense_def)
  have h: "updateTransaction numeric_12_2 sample_roles [sample_stored] (Some ''u3'') ''t1''
        amount_minus_5 1700000000007
       = (True, [sample_stored \<lparr> db_amount := - 5, updated_at := 1700000000007 \<rparr>])"
    by (simp add: updateTransaction_def coerce_updates_def build_updates_def apply_updates_def
        amount_minus_5_def sample_stored_def numeric_12_2_samples e)
  have a: "updateTransaction_action numeric_12_2 [sample_stored] ''t1'' data_amount_minus_5 1700000000007
       = (Inr (Some (sample_stored \<lparr> db_amount := - 5, updated_at := 1700000000007 \<rparr>)),
          [sample_stored \<lparr> db_amount := - 5, updated_at := 1700000000007 \<rparr>])"
    by (simp add: updateTransaction_action_def coerce_updates_def apply_updates_def
        data_amount_minus_5_def sample_stored_def numeric_12_2_samples)
  from f h a show ?thesis
    by simp
qed

section \<open>Delete\<close>

text \<open>
  Claim C6, as stated, fails: deleting an id that no transaction has reports success on both
  paths (the hook returns \<^verbatim>\<open>true\<close>, the action \<^verbatim>\<open>{ success: true }\<close>).
\<close>

theorem delete_missing_counterexample:
  "deleteTransaction sample_roles [sample_row] (Some ''u1'') ''t9'' = (True, [sample_row])
   \<and> deleteTransaction_action [sample_row] ''t9'' = (True, [sample_row])"
  by (simp add: deleteTransaction_def deleteTransaction_action_def sample_row_def)

text \<open>
  Claim C6, amended. For every id that no stored transaction has, delete reports success
  and leaves the store unchanged.
\<close>

theorem delete_missing_succeeds:
  assumes "\<not> list_ex (\<lambda>r. db_id r = id') txs"
  shows "deleteTransaction roles txs auth id' = (True, txs)
    \<and> deleteTransaction_action txs id' = (True, txs)"
proof -
  have "\<forall>r \<in> set txs. db_id r \<noteq> id'"
    using assms by (simp add: list_ex_iff)
  then show ?thesis
    by (simp add: deleteTransaction_def deleteTransaction_action_def)
qed

theorem delete_missing_succeeds_witness:
  "\<not> list_ex (\<lambda>r. db_id r = ''t1'') ([] :: int DbTransaction list)
   \<and> deleteTransaction sample_roles ([] :: int DbTransaction list) (Some ''u3'') ''t1'' = (True, [])
   \<and> deleteTransaction_action ([] :: int DbTransaction list) ''t1'' = (True, [])"
proof -
  have h: "\<not> list_ex (\<lambda>r. db_id r = ''t1'') ([] :: int DbTransaction list)"
    by simp
  from delete_missing_succeeds [OF h] h show ?thesis
    by blast
qed

section \<open>Insert\<close>

text \<open>
  Under the insert policy the hook does what claim C2 says. For an amount that the column
  takes, a user whose roles are exactly insert_income cannot insert an expense: the insert
  is refused as unauthorized and the table is unchanged; an insert that succeeds has an
  income and a user for whom canInsertIncome holds, or an expense and a user for whom
  canInsertExpense holds.
\<close>

lemma addTransaction_requires_permission:
  assumes "numeric (c_amount c) = Some v"
  shows "(set (fetchUserRoles roles uid) = {insert_income} \<and> c_type c = expense \<longrightarrow>
      addTransaction numeric roles txs (Some uid) c new_id now = (Some (Inl Unauthorized), txs))
   \<and> (\<forall>row txs'. addTransaction numeric roles txs (Some uid) c new_id now = (Some (Inr row), txs') \<longrightarrow>
        (c_type c = income \<longrightarrow> canInsertIncome (fetchUserRoles roles uid))
        \<and> (c_type c = expense \<longrightarrow> canInsertExpense (fetchUserRoles roles uid)))
   \<and> ((c_type c = income \<and> \<not> canInsertIncome (fetchUserRoles roles uid))
       \<or> (c_type c = expense \<and> \<not> canInsertExpense (fetchUserRoles roles uid)) \<longrightarrow>
        addTransaction numeric roles txs (Some uid) c new_id now = (Some (Inl Unauthorized), txs))"
proof -
  have pol: "insert_policy roles (Some uid) row \<longleftrightarrow>
      (db_type row = income \<and> canInsertIncome (fetchUserRoles roles uid))
      \<or> (db_type row = expense \<and> canInsertExpense (fetchUserRoles roles uid))" for row :: "'a DbTransaction"
    by (simp add: insert_policy_def authenticated_def can_insert_income_fetched
        can_insert_expense_fetched)
  have only_income: "\<not> canInsertExpense (fetchUserRoles roles uid)"
    if "set (fetchUserRoles roles uid) = {insert_income}"
    using that by (simp add: canInsertExpense_def isAdmin_def)
  show ?thesis
    using only_income assms
    by (cases "c_type c") (auto simp: addTransaction_def Let_def pol)
qed

text \<open>
  Claim C2 is not what the \<^verbatim>\<open>insertTransaction\<close> action does. A user whose only role is
  insert_income cannot insert an expense, and the hook under the policy refuses it as
  unauthorized; the action, given the same expense with that user as its owner, inserts the
  row and returns it.
\<close>

theorem insertTransaction_action_unchecked:
  "set (fetchUserRoles sample_roles ''u2'') = {insert_income}
   \<and> \<not> canInsertExpense (fetchUserRoles sample_roles ''u2'')
   \<and> addTransaction numeric_12_2 sample_roles [sample_stored] (Some ''u2'') sample_expense ''t2''
        1700000000100
       = (Some (Inl Unauthorized), [sample_stored])
   \<and> insertTransaction_action numeric_12_2 [sample_stored] sample_expense_data ''t2'' 1700000000100
       = (Inr sample_expense_row, [sample_stored, sample_expense_row])"
proof -
  have r: "set (fetchUserRoles sample_roles ''u2'') = {insert_income}"
    by (simp add: fetchUserRoles_def sample_roles_def)
  then have n: "\<not> canInsertExpense (fetchUserRoles sample_roles ''u2'')"
    by (simp add: canInsertExpense_def isAdmin_def)
  have t: "c_type sample_expense = expense" and v: "numeric_12_2 (c_amount sample_expense) = Some 50"
    by (simp_all add: sample_expense_def numeric_12_2_samples)
  from addTransaction_requires_permission [where numeric = numeric_12_2 and c = sample_expense
      and v = 50 and roles = sample_roles and uid = "''u2''" and txs = "[sample_stored]"
      and new_id = "''t2''" and now = 1700000000100, OF v] r t
  have h: "addTransaction numeric_12_2 sample_roles [sample_stored] (Some ''u2'') sample_expense ''t2''
        1700000000100 = (Some (Inl Unauthorized), [sample_stored])"
    by blast
  have a: "insertTransaction_action numeric_12_2 [sample_stored] sample_expense_data ''t2'' 1700000000100
       = (Inr sample_expense_row, [sample_stored, sample_expense_row])"
    by (simp add: insertTransaction_action_def sample_expense_data_def sample_expense_row_def
        numeric_12_2_samples Let_def)
  from r n h a show ?thesis
    by simp
qed

section \<open>List\<close>









section \<open>Registration\<close>

lemma bootstrap_roles_Suc:
  "bootstrap_roles (Suc n) = bootstrap_roles n @ [if n = 0 then admin else view_only]"
  by (cases n) (simp_all add: bootstrap_roles_def replicate_append_same)

lemma bootstrap_roles_one_admin:
  "map ur_role rs = bootstrap_roles n \<Longrightarrow> length (filter (\<lambda>r. ur_role r = admin) rs) \<le> 1"
proof -
  assume a: "map ur_role rs = bootstrap_roles n"
  have "length (filter (\<lambda>r. ur_role r = admin) rs) = length (filter (\<lambda>x. x = admin) (map ur_role rs))"
    by (simp add: filter_map comp_def)
  also have "\<dots> \<le> 1"
    unfolding a by (cases n) (simp_all add: bootstrap_roles_def)
  finally show ?thesis .
qed

text \<open>
  The trigger does what claim C3 says: after any sequence of new users on an empty database
  there is one role row for each, in their order, admin for the first and view_only for
  every later one.
\<close>

lemma handle_new_users_bootstrap:
  assumes "map ur_user_id (user_roles db) = map p_id (profiles db)"
    and "map ur_role (user_roles db) = bootstrap_roles (length (user_roles db))"
  shows "map ur_user_id (user_roles (handle_new_users db news))
        = map p_id (profiles db) @ map (\<lambda>(new, _). nu_id new) news
    \<and> map p_id (profiles (handle_new_users db news))
        = map p_id (profiles db) @ map (\<lambda>(new, _). nu_id new) news
    \<and> map ur_role (user_roles (handle_new_users db news))
        = bootstrap_roles (length (user_roles db) + length news)"
  using assms
proof (induction news arbitrary: db)
  case Nil
  then show ?case by simp
next
  case (Cons n news)
  obtain new role_id where n: "n = (new, role_id)"
    by (cases n)
  have "map ur_user_id (user_roles (handle_new_user db new role_id))
      = map p_id (profiles (handle_new_user db new role_id))"
    and "map ur_role (user_roles (handle_new_user db new role_id))
      = bootstrap_roles (length (user_roles (handle_new_user db new role_id)))"
    using Cons.prems by (simp_all add: handle_new_user_def bootstrap_roles_Suc)
  from Cons.IH [OF this] show ?case
    unfolding n by (simp add: handle_new_user_def)
qed

lemma handle_new_users_from_empty:
  "map ur_user_id (user_roles (handle_new_users \<lparr> profiles = [], user_roles = [] \<rparr> news))
      = map (\<lambda>(new, _). nu_id new) news
   \<and> map ur_role (user_roles (handle_new_users \<lparr> profiles = [], user_roles = [] \<rparr> news))
      = bootstrap_roles (length news)
   \<and> length (filter (\<lambda>r. ur_role r = admin)
        (user_roles (handle_new_users \<lparr> profiles = [], user_roles = [] \<rparr> news))) \<le> 1"
proof -
  have h: "map ur_user_id (user_roles (handle_new_users \<lparr> profiles = [], user_roles = [] \<rparr> news))
        = map (\<lambda>(new, _). nu_id new) news
      \<and> map ur_role (user_roles (handle_new_users \<lparr> profiles = [], user_roles = [] \<rparr> news))
        = bootstrap_roles (length news)"
    using handle_new_users_bootstrap [of "\<lparr> profiles = [], user_roles = [] \<rparr>" news]
    by (simp add: bootstrap_roles_def)
  then show ?thesis
    using bootstrap_roles_one_admin by blast
qed

text \<open>
  The \<^verbatim>\<open>signup\<close> action never makes an admin: a signup leaves the database as it was when
  the email is taken, and otherwise adds the user and one role row with the role view_only.
\<close>

lemma signup_result:
  "signup db body g =
     (if list_ex (\<lambda>u. u_email u = email body) (users db) then (Inl AlreadyRegistered, db)
      else (Inr \<lparr> u_id = g_user_id g, u_email = email body, u_password_hash = g_password_hash g,
                  u_full_name = fullName body, u_created_at = g_now g \<rparr>,
            \<lparr> users = users db @ [\<lparr> u_id = g_user_id g, u_email = email body,
                  u_password_hash = g_password_hash g, u_full_name = fullName body,
                  u_created_at = g_now g \<rparr>],
              srv_user_roles = srv_user_roles db
                @ [\<lparr> ur_id = g_role_id g, ur_user_id = g_user_id g, ur_role = view_only \<rparr>] \<rparr>))"
  by (simp add: signup_def Let_def)

text \<open>
  Claim C3 is not what the \<^verbatim>\<open>signup\<close> action does. The first signup on an empty database
  compares the count of users, a BigInt, with the number 1 by \<^verbatim>\<open>===\<close>, which is false,
  and gives the first user the role view_only; the trigger, for the same first user, gives
  admin.
\<close>

theorem signup_first_user_view_only:
  "strict_equals (JsBigInt 1) (JsNumber 1) = False
   \<and> signup \<lparr> users = [], srv_user_roles = [] \<rparr> sample_signup_body sample_signup_generated
       = (Inr \<lparr> u_id = ''u1'', u_email = ''ana@example.com'', u_password_hash = ''h1'',
                u_full_name = ''Ana'', u_created_at = 1700000000000 \<rparr>,
          \<lparr> users = [\<lparr> u_id = ''u1'', u_email = ''ana@example.com'', u_password_hash = ''h1'',
                u_full_name = ''Ana'', u_created_at = 1700000000000 \<rparr>],
            srv_user_roles = [\<lparr> ur_id = ''r1'', ur_user_id = ''u1'', ur_role = view_only \<rparr>] \<rparr>)
   \<and> user_roles (handle_new_user \<lparr> profiles = [], user_roles = [] \<rparr> sample_new_user ''r1'')
       = [\<lparr> ur_id = ''r1'', ur_user_id = ''u1'', ur_role = admin \<rparr>]"
  by (simp add: signup_result sample_signup_body_def sample_signup_generated_def
      handle_new_user_def sample_new_user_def)

section \<open>Changing a role\<close>

text \<open>
  Claim C4, as stated, fails on the page \<^verbatim>\<open>Users\<close>: \<^verbatim>\<open>handleRoleChange\<close> updates in place the
  one row whose id it is given. For a user with the roles edit and insert_income, changing
  the first to view_only leaves two roles, and for a user without a role row (the page then
  passes the empty id) it leaves none.
\<close>

theorem role_change_counterexample:
  "handleRoleChange sample_two_roles (Some ''u1'') ''u5'' ''r5'' view_only =
     (None, [\<lparr> ur_id = ''r1'', ur_user_id = ''u1'', ur_role = admin \<rparr>,
             \<lparr> ur_id = ''r5'', ur_user_id = ''u5'', ur_role = view_only \<rparr>,
             \<lparr> ur_id = ''r6'', ur_user_id = ''u5'', ur_role = insert_income \<rparr>])
   \<and> fetchUserRoles (snd (handleRoleChange sample_two_roles (Some ''u1'') ''u5'' ''r5'' view_only)) ''u5''
       = [view_only, insert_income]
   \<and> fetchUserRoles (snd (handleRoleChange sample_two_roles (Some ''u1'') ''u7'' [] edit)) ''u7'' = []"
  by (simp add: handleRoleChange_def sample_two_roles_def authenticated_def has_role_def
      fetchUserRoles_def)

lemma updateUserRole_rows:
  "filter (\<lambda>x. ur_user_id x = u) (updateUserRole tbl u r new_id)
     = [\<lparr> ur_id = new_id, ur_user_id = u, ur_role = r \<rparr>]
   \<and> filter (\<lambda>x. ur_user_id x \<noteq> u) (updateUserRole tbl u r new_id)
     = filter (\<lambda>x. ur_user_id x \<noteq> u) tbl"
proof -
  have "filter (\<lambda>x. ur_user_id x = u) (filter (\<lambda>r. ur_user_id r \<noteq> u) tbl) = []"
    by (induction tbl) simp_all
  moreover have "filter (\<lambda>x. ur_user_id x \<noteq> u) (filter (\<lambda>r. ur_user_id r \<noteq> u) tbl)
      = filter (\<lambda>x. ur_user_id x \<noteq> u) tbl"
    by simp
  ultimately show ?thesis
    by (simp add: updateUserRole_def)
qed

lemma handleRoleChange_single:
  assumes adm: "authenticated (\<lambda>a. has_role tbl a admin) auth"
    and ids: "distinct (map ur_id tbl)"
    and one: "filter (\<lambda>x. ur_user_id x = u) tbl = [row]"
    and rid: "ur_id row = roleId"
  shows "handleRoleChange tbl auth u roleId r
      = (None, map (\<lambda>x. if ur_id x = roleId then x \<lparr> ur_role := r \<rparr> else x) tbl)"
    and "filter (\<lambda>x. ur_user_id x = u)
          (map (\<lambda>x. if ur_id x = roleId then x \<lparr> ur_role := r \<rparr> else x) tbl)
        = [row \<lparr> ur_role := r \<rparr>]"
    and "filter (\<lambda>x. ur_user_id x \<noteq> u)
          (map (\<lambda>x. if ur_id x = roleId then x \<lparr> ur_role := r \<rparr> else x) tbl)
        = filter (\<lambda>x. ur_user_id x \<noteq> u) tbl"
proof -
  have "row \<in> set (filter (\<lambda>x. ur_user_id x = u) tbl)"
    unfolding one by simp
  then have row: "row \<in> set tbl" "ur_user_id row = u"
    by simp_all
  have inj: "inj_on ur_id (set tbl)"
    using ids by (simp add: distinct_map)
  have key: "x = row" if "x \<in> set tbl" "ur_id x = roleId" for x
    using inj that row(1) rid by (auto dest: inj_onD)
  have own: "x = row" if "x \<in> set tbl" "ur_user_id x = u" for x
  proof -
    from that have "x \<in> set (filter (\<lambda>x. ur_user_id x = u) tbl)"
      by simp
    then show ?thesis
      unfolding one by simp
  qed
  have no_clash: "\<not> list_ex (\<lambda>t. ur_id t = roleId
                \<and> list_ex (\<lambda>x. ur_user_id x = ur_user_id t \<and> ur_role x = r
                                 \<and> ur_id x \<noteq> roleId) tbl) tbl"
    using key own row(2) rid by (auto simp: list_ex_iff)
  show "handleRoleChange tbl auth u roleId r
      = (None, map (\<lambda>x. if ur_id x = roleId then x \<lparr> ur_role := r \<rparr> else x) tbl)"
    using adm no_clash by (simp add: handleRoleChange_def)
  have upd: "(if ur_id x = roleId then x \<lparr> ur_role := r \<rparr> else x)
      = (if ur_user_id x = u then x \<lparr> ur_role := r \<rparr> else x)" if "x \<in> set tbl" for x
    using key [OF that] own [OF that] row(2) rid by auto
  have m: "map (\<lambda>x. if ur_id x = roleId then x \<lparr> ur_role := r \<rparr> else x) tbl
      = map (\<lambda>x. if ur_user_id x = u then x \<lparr> ur_role := r \<rparr> else x) tbl"
    using upd by (simp cong: map_cong)
  have f1: "filter (\<lambda>x. ur_user_id x = u)
        (map (\<lambda>x. if ur_user_id x = u then x \<lparr> ur_role := r \<rparr> else x) xs)
      = map (\<lambda>x. x \<lparr> ur_role := r \<rparr>) (filter (\<lambda>x. ur_user_id x = u) xs)" for xs
    by (induction xs) simp_all
  have f2: "filter (\<lambda>x. ur_user_id x \<noteq> u)
        (map (\<lambda>x. if ur_user_id x = u then x \<lparr> ur_role := r \<rparr> else x) xs)
      = filter (\<lambda>x. ur_user_id x \<noteq> u) xs" for xs
    by (induction xs) simp_all
  show "filter (\<lambda>x. ur_user_id x = u)
          (map (\<lambda>x. if ur_id x = roleId then x \<lparr> ur_role := r \<rparr> else x) tbl)
        = [row \<lparr> ur_role := r \<rparr>]"
    unfolding m f1 one by simp
  show "filter (\<lambda>x. ur_user_id x \<noteq> u)
          (map (\<lambda>x. if ur_id x = roleId then x \<lparr> ur_role := r \<rparr> else x) tbl)
        = filter (\<lambda>x. ur_user_id x \<noteq> u) tbl"
    unfolding m f2 by simp
qed

text \<open>
  Claim C4, amended. The \<^verbatim>\<open>updateUserRole\<close> action replaces all role rows of the user by
  exactly one new row with the new role (delete, then insert) and leaves the rows of other
  users as they were. \<^verbatim>\<open>handleRoleChange\<close>, called by an admin with the id of the only role
  row of the user, sets the role of that row in place and leaves the rows of other users as
  they were. After either, the user has exactly the new role.
\<close>

theorem role_change_replaces:
  "filter (\<lambda>x. ur_user_id x = u) (updateUserRole tbl u r new_id)
     = [\<lparr> ur_id = new_id, ur_user_id = u, ur_role = r \<rparr>]
   \<and> filter (\<lambda>x. ur_user_id x \<noteq> u) (updateUserRole tbl u r new_id)
     = filter (\<lambda>x. ur_user_id x \<noteq> u) tbl
   \<and> fetchUserRoles (updateUserRole tbl u r new_id) u = [r]
   \<and> (authenticated (\<lambda>a. has_role tbl a admin) auth \<and> distinct (map ur_id tbl)
        \<and> filter (\<lambda>x. ur_user_id x = u) tbl = [row] \<and> ur_id row = roleId \<longrightarrow>
       fst (handleRoleChange tbl auth u roleId r) = None
       \<and> filter (\<lambda>x. ur_user_id x = u) (snd (handleRoleChange tbl auth u roleId r))
           = [row \<lparr> ur_role := r \<rparr>]
       \<and> filter (\<lambda>x. ur_user_id x \<noteq> u) (snd (handleRoleChange tbl auth u roleId r))
           = filter (\<lambda>x. ur_user_id x \<noteq> u) tbl
       \<and> fetchUserRoles (snd (handleRoleChange tbl auth u roleId r)) u = [r])"
proof -
  have a: "fetchUserRoles (updateUserRole tbl u r new_id) u = [r]"
    using updateUserRole_rows [of u tbl r new_id] by (simp add: fetchUserRoles_def)
  have b: "fst (handleRoleChange tbl auth u roleId r) = None
       \<and> filter (\<lambda>x. ur_user_id x = u) (snd (handleRoleChange tbl auth u roleId r))
           = [row \<lparr> ur_role := r \<rparr>]
       \<and> filter (\<lambda>x. ur_user_id x \<noteq> u) (snd (handleRoleChange tbl auth u roleId r))
           = filter (\<lambda>x. ur_user_id x \<noteq> u) tbl
       \<and> fetchUserRoles (snd (handleRoleChange tbl auth u roleId r)) u = [r]"
    if "authenticated (\<lambda>a. has_role tbl a admin) auth" "distinct (map ur_id tbl)"
      "filter (\<lambda>x. ur_user_id x = u) tbl = [row]" "ur_id row = roleId"
    using handleRoleChange_single [OF that, of r] by (simp add: fetchUserRoles_def)
  have c: "authenticated (\<lambda>a. has_role tbl a admin) auth \<and> distinct (map ur_id tbl)
        \<and> filter (\<lambda>x. ur_user_id x = u) tbl = [row] \<and> ur_id row = roleId \<longrightarrow>
       fst (handleRoleChange tbl auth u roleId r) = None
       \<and> filter (\<lambda>x. ur_user_id x = u) (snd (handleRoleChange tbl auth u roleId r))
           = [row \<lparr> ur_role := r \<rparr>]
       \<and> filter (\<lambda>x. ur_user_id x \<noteq> u) (snd (handleRoleChange tbl auth u roleId r))
           = filter (\<lambda>x. ur_user_id x \<noteq> u) tbl
       \<and> fetchUserRoles (snd (handleRoleChange tbl auth u roleId r)) u = [r]"
  proof (intro impI, elim conjE)
    assume "authenticated (\<lambda>a. has_role tbl a admin) auth" "distinct (map ur_id tbl)"
      "filter (\<lambda>x. ur_user_id x = u) tbl = [row]" "ur_id row = roleId"
    then show "fst (handleRoleChange tbl auth u roleId r) = None
       \<and> filter (\<lambda>x. ur_user_id x = u) (snd (handleRoleChange tbl auth u roleId r))
           = [row \<lparr> ur_role := r \<rparr>]
       \<and> filter (\<lambda>x. ur_user_id x \<noteq> u) (snd (handleRoleChange tbl auth u roleId r))
           = filter (\<lambda>x. ur_user_id x \<noteq> u) tbl
       \<and> fetchUserRoles (snd (handleRoleChange tbl auth u roleId r)) u = [r]"
      by (rule b)
  qed
  show ?thesis
    by (intro conjI) (rule updateUserRole_rows [THEN conjunct1], rule updateUserRole_rows [THEN conjunct2],
        rule a, rule c)
qed

theorem role_change_replaces_witness:
  "authenticated (\<lambda>a. has_role sample_roles a admin) (Some ''u1'')
   \<and> distinct (map ur_id sample_roles)
   \<and> filter (\<lambda>x. ur_user_id x = ''u4'') sample_roles
       = [\<lparr> ur_id = ''r4'', ur_user_id = ''u4'', ur_role = view_only \<rparr>]
   \<and> fetchUserRoles (snd (handleRoleChange sample_roles (Some ''u1'') ''u4'' ''r4'' edit)) ''u4'' = [edit]
   \<and> fetchUserRoles (updateUserRole sample_two_roles ''u5'' view_only ''r7'') ''u5'' = [view_only]"
proof -
  have h: "authenticated (\<lambda>a. has_role sample_roles a admin) (Some ''u1'')
     \<and> distinct (map ur_id sample_roles)
     \<and> filter (\<lambda>x. ur_user_id x = ''u4'') sample_roles
         = [\<lparr> ur_id = ''r4'', ur_user_id = ''u4'', ur_role = view_only \<rparr>]
     \<and> ur_id \<lparr> ur_id = ''r4'', ur_user_id = ''u4'', ur_role = view_only \<rparr> = ''r4''"
    by (simp add: authenticated_def has_role_def sample_roles_def)
  from role_change_replaces [where tbl = sample_roles and auth = "Some ''u1''" and u = "''u4''"
      and row = "\<lparr> ur_id = ''r4'', ur_user_id = ''u4'', ur_role = view_only \<rparr>"
      and roleId = "''r4''" and r = edit] h
  have "fetchUserRoles (snd (handleRoleChange sample_roles (Some ''u1'') ''u4'' ''r4'' edit)) ''u4'' = [edit]"
    by simp
  moreover have "fetchUserRoles (updateUserRole sample_two_roles ''u5'' view_only ''r7'') ''u5'' = [view_only]"
    using role_change_replaces [where tbl = sample_two_roles and u = "''u5''" and r = view_only
        and new_id = "''r7''"]
    by simp
  ultimately show ?thesis
    using h by simp
qed


end
